theory Spec2Isabelle
  imports Complex_Main
begin

section \<open>JavaScript values carried by the content API\<close>

text \<open>
  The views read JSON fields without declaring their types. A field value is a JSON
  primitive, or \<open>undefined\<close> when the property is absent. Numbers are the integers
  (JSON has no NaN), so strict equality \<open>===\<close> and the SameValueZero comparison of
  \<open>Set\<close> and \<open>Array.prototype.includes\<close> are both HOL equality on this type.
\<close>

datatype jsval = JUndefined | JNull | JBool bool | JNum int | JStr string

text \<open>\<open>Boolean(v)\<close>, the truthiness test of \<open>filter(Boolean)\<close>, \<open>&&\<close> and \<open>?:\<close>.\<close>

fun truthy :: "jsval \<Rightarrow> bool" where
  "truthy JUndefined = False"
| "truthy JNull = False"
| "truthy (JBool b) = b"
| "truthy (JNum n) = (n \<noteq> 0)"
| "truthy (JStr s) = (s \<noteq> [])"

text \<open>
  The \<open>technologies\<close> property of a project: absent, \<open>null\<close>, or an array of values.
  An array is truthy even when it is empty.
\<close>

datatype tech_field = TechUndefined | TechNull | TechList "jsval list"

text \<open>
  A project as the views read it. The elements of a \<open>results\<close> array are objects;
  a property the API leaves out reads as \<open>undefined\<close>.
\<close>

record project =
  project_id :: int
  title :: string
  category :: jsval
  technologies :: tech_field
  featured :: jsval
  created_at :: jsval

text \<open>
  What a state variable holds after \<open>setProjects(response.data.results)\<close>: the code
  stores the value as it came, so it is an array of items, a primitive (\<open>undefined\<close>
  when the property is absent), or an object that is not an array (and has none of the
  properties \<open>length\<close>, \<open>map\<close>, \<open>filter\<close>, \<open>slice\<close> that the views use).
\<close>

datatype 'a stored = Prim jsval | Obj | Arr "'a list"

text \<open>
  What can be thrown: the rejection of a request, with its message; the TypeError of
  calling a method the value does not have or reading a property of \<open>undefined\<close> or
  \<open>null\<close>, with the expression that raised it; the RangeError of creating an array
  of an invalid length, with the expression that raised it.
\<close>

datatype js_error = AxiosError string | TypeError string | RangeError string

text \<open>
  The outcome of \<open>await axios.get(url)\<close>: the promise rejects, or it resolves with a
  response whose \<open>data\<close> is \<open>null\<close>/\<open>undefined\<close> (\<open>NoData\<close>), or whose \<open>data\<close> is any
  other value, given by what reading its properties returns.
\<close>

datatype 'a response = Rejected js_error | NoData | Data 'a

text \<open>
  \<open>new Set(xs)\<close> adds the elements in order and skips one that is already a member;
  spreading the set lists the members in insertion order.
\<close>

definition new_Set :: "'a list \<Rightarrow> 'a list" where
  "new_Set xs = fold (\<lambda>x acc. if x \<in> set acc then acc else acc @ [x]) xs []"

text \<open>
  The specification's reading of the key list: the distinct values in first-seen order.
  The first value comes first; the rest is the first-seen list of the tail without it.
\<close>

fun distinct_first_seen :: "'a list \<Rightarrow> 'a list" where
  "distinct_first_seen [] = []"
| "distinct_first_seen (x # xs) = x # removeAll x (distinct_first_seen xs)"


section \<open>The Portfolio view, filtering by category (pages/Portfolio.jsx)\<close>

text \<open>
  Source: \<open>src/frontend/src/pages/Portfolio.jsx\<close>; \<open>src/unnamed/part_008\<close> is the same
  component with doc comments.
\<close>

record portfolio_state =
  projects :: "project stored"
  filteredProjects :: "project stored"
  selectedCategory :: jsval
  loading :: bool
  requests :: "string list"
  console :: "string list"

text \<open>The \<open>useState\<close> initial values; no request issued and nothing logged yet.\<close>

definition Portfolio_init :: portfolio_state where
  "Portfolio_init = \<lparr>projects = Arr [], filteredProjects = Arr [],
     selectedCategory = JStr ''all'', loading = True, requests = [], console = []\<rparr>"

text \<open>
  \<open>fetchProjects\<close>, run by the mount effect (once; the second run that React's
  StrictMode adds in a development build is not modelled). The request is recorded,
  then the awaited outcome decides: the \<open>try\<close> body stores \<open>response.data.results\<close>
  twice and clears \<open>loading\<close>; a rejection, or the TypeError of reading \<open>results\<close> from
  a \<open>null\<close>/\<open>undefined\<close> \<open>data\<close>, lands in \<open>catch\<close>, which logs and clears \<open>loading\<close>.
  The state updates after the \<open>await\<close> are applied together, before the next render.
\<close>

definition fetchProjects :: "project stored response \<Rightarrow> portfolio_state \<Rightarrow> portfolio_state" where
  "fetchProjects r s =
     (let s1 = s\<lparr>requests := requests s @ [''http://127.0.0.1:8000/api/portfolio/projects/'']\<rparr>
      in case r of
           Data results \<Rightarrow> s1\<lparr>projects := results, filteredProjects := results, loading := False\<rparr>
         | _ \<Rightarrow> s1\<lparr>console := console s1 @ [''Error fetching projects:''], loading := False\<rparr>)"

text \<open>
  \<open>['all', ...new Set(projects.map(project => project.category).filter(Boolean))]\<close>.
  \<open>projects.map\<close> raises a TypeError when \<open>projects\<close> is not an array.
\<close>

definition categories :: "project stored \<Rightarrow> js_error + jsval list" where
  "categories ps =
     (case ps of
        Arr items \<Rightarrow> Inr (JStr ''all'' # new_Set (filter truthy (map category items)))
      | _ \<Rightarrow> Inl (TypeError ''projects.map''))"

text \<open>
  \<open>filterProjects(category)\<close>. \<open>projects.filter\<close> raises a TypeError when \<open>projects\<close>
  is not an array; the handler is then abandoned.
\<close>

definition filterProjects :: "jsval \<Rightarrow> portfolio_state \<Rightarrow> js_error + portfolio_state" where
  "filterProjects cat s =
     (let s1 = s\<lparr>selectedCategory := cat\<rparr>
      in if cat = JStr ''all'' then Inr (s1\<lparr>filteredProjects := projects s\<rparr>)
         else (case projects s of
                 Arr items \<Rightarrow>
                   Inr (s1\<lparr>filteredProjects := Arr (filter (\<lambda>project. category project = cat) items)\<rparr>)
               | _ \<Rightarrow> Inl (TypeError ''projects.filter'')))"

text \<open>
  What the component returns. The model keeps which section is rendered and from which
  data: the filter keys (one button each), the selected key, and either the empty-state
  message or the grid of items. The texts of the labels and of the cards are not
  modelled, the exceptions of computing them are.
\<close>

datatype portfolio_grid = NoProjects string | ProjectsGrid "project list"

datatype portfolio_view =
  LoadingProjects
| PortfolioPage "jsval list" jsval portfolio_grid

text \<open>
  The label of a filter button:
  \<open>category === 'all' ? 'All Projects' : (category && category.charAt(0).toUpperCase() + category.slice(1))\<close>.
  Only a string has \<open>charAt\<close>: a truthy key that is a number or \<open>true\<close> raises a
  TypeError, a falsy key stops at \<open>&&\<close>.
\<close>

fun label_raises :: "jsval \<Rightarrow> bool" where
  "label_raises (JStr str) = False"
| "label_raises k = truthy k"

text \<open>
  The technology tags of a card:
  \<open>project.technologies && project.technologies.map((tech, index) => ... tech.trim() ...)\<close>.
  Only a string has \<open>trim\<close>: any other element of the array raises a TypeError.
\<close>

fun is_string :: "jsval \<Rightarrow> bool" where
  "is_string (JStr str) = True"
| "is_string v = False"

definition card_raises :: "project \<Rightarrow> bool" where
  "card_raises p =
     (case technologies p of
        TechList ts \<Rightarrow> (\<exists>tech \<in> set ts. \<not> is_string tech)
      | _ \<Rightarrow> False)"

text \<open>
  The grid section: \<open>filteredProjects.length === 0\<close> chooses the empty-state message,
  else \<open>filteredProjects.map\<close> renders one card per item, in order. Reading \<open>length\<close>
  of \<open>undefined\<close> or \<open>null\<close> raises; a string has a length but no \<open>map\<close>; any other
  value has neither. \<open>raises\<close> tells which cards raise while they are rendered,
  and \<open>expr\<close> names the expression that does.
\<close>

definition project_grid ::
  "string \<Rightarrow> (project \<Rightarrow> bool) \<Rightarrow> string \<Rightarrow> project stored \<Rightarrow> js_error + portfolio_grid" where
  "project_grid msg raises expr fs =
     (case fs of
        Arr items \<Rightarrow>
          (if length items = 0 then Inr (NoProjects msg)
           else if (\<exists>project \<in> set items. raises project) then Inl (TypeError expr)
           else Inr (ProjectsGrid items))
      | Prim JUndefined \<Rightarrow> Inl (TypeError ''filteredProjects.length'')
      | Prim JNull \<Rightarrow> Inl (TypeError ''filteredProjects.length'')
      | Prim (JStr str) \<Rightarrow>
          (if length str = 0 then Inr (NoProjects msg)
           else Inl (TypeError ''filteredProjects.map''))
      | _ \<Rightarrow> Inl (TypeError ''filteredProjects.map''))"

text \<open>
  \<open>categories\<close> is computed on every render, before the \<open>loading\<close> test. When the
  page is rendered, the filter buttons come first, then the grid.
\<close>

definition Portfolio :: "portfolio_state \<Rightarrow> js_error + portfolio_view" where
  "Portfolio s =
     (case categories (projects s) of
        Inl e \<Rightarrow> Inl e
      | Inr cats \<Rightarrow>
          if loading s then Inr LoadingProjects
          else if (\<exists>category \<in> set cats. label_raises category)
          then Inl (TypeError ''category.charAt'')
          else (case project_grid ''No projects found for the selected category.''
                       card_raises ''tech.trim'' (filteredProjects s) of
                  Inl e \<Rightarrow> Inl e
                | Inr g \<Rightarrow> Inr (PortfolioPage cats (selectedCategory s) g)))"


section \<open>The Portfolio view, filtering by technology (version 2.0.0 of the page)\<close>

text \<open>
  Source: \<open>src/unnamed/part_007\<close>. Version 2.0.0 keeps the state and the fetch, and
  reads the API under \<open>/api/v1\<close>.
\<close>

definition fetchProjects_v2 :: "project stored response \<Rightarrow> portfolio_state \<Rightarrow> portfolio_state" where
  "fetchProjects_v2 r s =
     (let s1 = s\<lparr>requests := requests s @ [''http://127.0.0.1:8000/api/v1/portfolio/projects/'']\<rparr>
      in case r of
           Data results \<Rightarrow> s1\<lparr>projects := results, filteredProjects := results, loading := False\<rparr>
         | _ \<Rightarrow> s1\<lparr>console := console s1 @ [''Error fetching projects:''], loading := False\<rparr>)"

text \<open>\<open>project.technologies ? project.technologies : []\<close>, the callback of \<open>flatMap\<close>.\<close>

definition technologies_or_empty :: "project \<Rightarrow> jsval list" where
  "technologies_or_empty p = (case technologies p of TechList ts \<Rightarrow> ts | _ \<Rightarrow> [])"

text \<open>\<open>['all', ...new Set(projects.flatMap(...))]\<close>: the elements are taken as they are.\<close>

definition technologies_v2 :: "project stored \<Rightarrow> js_error + jsval list" where
  "technologies_v2 ps =
     (case ps of
        Arr items \<Rightarrow> Inr (JStr ''all'' # new_Set (concat (map technologies_or_empty items)))
      | _ \<Rightarrow> Inl (TypeError ''projects.flatMap''))"

text \<open>\<open>project.technologies && project.technologies.includes(technology)\<close>.\<close>

definition uses_technology :: "jsval \<Rightarrow> project \<Rightarrow> bool" where
  "uses_technology tech p = (case technologies p of TechList ts \<Rightarrow> tech \<in> set ts | _ \<Rightarrow> False)"

definition filterProjects_v2 :: "jsval \<Rightarrow> portfolio_state \<Rightarrow> js_error + portfolio_state" where
  "filterProjects_v2 tech s =
     (let s1 = s\<lparr>selectedCategory := tech\<rparr>
      in if tech = JStr ''all'' then Inr (s1\<lparr>filteredProjects := projects s\<rparr>)
         else (case projects s of
                 Arr items \<Rightarrow> Inr (s1\<lparr>filteredProjects := Arr (filter (uses_technology tech) items)\<rparr>)
               | _ \<Rightarrow> Inl (TypeError ''projects.filter'')))"

text \<open>
  Version 2.0.0 renders a key and a technology as they are, with no method call, so
  neither a label nor a card raises.
\<close>

definition Portfolio_v2 :: "portfolio_state \<Rightarrow> js_error + portfolio_view" where
  "Portfolio_v2 s =
     (case technologies_v2 (projects s) of
        Inl e \<Rightarrow> Inl e
      | Inr techs \<Rightarrow>
          if loading s then Inr LoadingProjects
          else (case project_grid ''No projects found for the selected technology.''
                       (\<lambda>project. False) [] (filteredProjects s) of
                  Inl e \<Rightarrow> Inl e
                | Inr g \<Rightarrow> Inr (PortfolioPage techs (selectedCategory s) g)))"


section \<open>The Blog listing, paginated by the server (pages/Blog.jsx)\<close>

text \<open>
  The file holds the page twice; the documented copy differs from the first only in the
  URL prefix \<open>/api/v1\<close>. The model follows the first and takes the response of the
  API as typed: an array of posts and an integer count.
\<close>

record post =
  post_id :: int
  post_title :: string
  slug :: string

text \<open>The \<open>data\<close> of a page of posts: the \<open>results\<close> array and the \<open>count\<close> of all posts.\<close>

record posts_page =
  results :: "post list"
  count :: int

record blog_state =
  posts :: "post list"
  blog_loading :: bool
  currentPage :: int
  totalPages :: int
  blog_requests :: "(string \<times> int) list"
  blog_console :: "string list"
  scrolls :: nat

definition Blog_init :: blog_state where
  "Blog_init = \<lparr>posts = [], blog_loading = True, currentPage = 1, totalPages = 1,
     blog_requests = [], blog_console = [], scrolls = 0\<rparr>"

text \<open>
  \<open>Math.ceil(count / 10)\<close> for an integer \<open>count\<close>. The division is a division of
  doubles. While \<open>count\<close> is below \<open>2^53\<close> in magnitude it is exact as a double, and
  the quotient, below \<open>2^50\<close>, is rounded by at most a sixteenth, less than the tenth
  that separates an inexact quotient from the integer under it: the ceiling is that of
  the exact quotient. From \<open>2^53\<close> up the result depends on how the doubles round; the
  model leaves it to the host, as the function \<open>big\<close>.
\<close>

definition Math_ceil_tenth :: "(int \<Rightarrow> int) \<Rightarrow> int \<Rightarrow> int" where
  "Math_ceil_tenth big c =
     (if \<bar>c\<bar> < 9007199254740992 then \<lceil>(of_int c :: rat) / 10\<rceil> else big c)"

text \<open>
  \<open>fetchPosts\<close>, run by the effect at mount and whenever \<open>currentPage\<close> changes. The
  request is recorded as the URL prefix and the page number appended to it.
\<close>

definition fetchPosts :: "(int \<Rightarrow> int) \<Rightarrow> posts_page response \<Rightarrow> blog_state \<Rightarrow> blog_state" where
  "fetchPosts big r s =
     (let s1 = s\<lparr>blog_requests := blog_requests s
                  @ [(''http://127.0.0.1:8000/api/blog/posts/?page='', currentPage s)]\<rparr>
      in case r of
           Data d \<Rightarrow> s1\<lparr>posts := results d,
                        totalPages := Math_ceil_tenth big (count d),
                        blog_loading := False\<rparr>
         | _ \<Rightarrow> s1\<lparr>blog_console := blog_console s1 @ [''Error fetching blog posts:''],
                   blog_loading := False\<rparr>)"

text \<open>\<open>handlePageChange(page)\<close>: sets the page and scrolls the window to the top.\<close>

definition handlePageChange :: "int \<Rightarrow> blog_state \<Rightarrow> blog_state" where
  "handlePageChange page s = s\<lparr>currentPage := page, scrolls := Suc (scrolls s)\<rparr>"

text \<open>
  The pagination bar: the \<open>disabled\<close> attribute of Previous, the numbered buttons
  \<open>Array.from({ length: totalPages }, (_, i) => i + 1)\<close>, the \<open>disabled\<close> attribute of Next.
  \<open>Array.from\<close> creates an array of the given length, which raises a RangeError when
  the length exceeds \<open>2^32 - 1\<close>.
\<close>

datatype pagination = Pagination bool "int list" bool

fun previous_disabled :: "pagination \<Rightarrow> bool" where
  "previous_disabled (Pagination p ns n) = p"

fun next_disabled :: "pagination \<Rightarrow> bool" where
  "next_disabled (Pagination p ns n) = n"

datatype blog_view = LoadingPosts | NoPosts | PostsGrid "post list" "pagination option"

definition Blog :: "blog_state \<Rightarrow> js_error + blog_view" where
  "Blog s =
     (if blog_loading s then Inr LoadingPosts
      else if length (posts s) = 0 then Inr NoPosts
      else if totalPages s > 1
      then (if totalPages s > 4294967295 then Inl (RangeError ''Array.from'')
            else Inr (PostsGrid (posts s)
                   (Some (Pagination (currentPage s = 1) [1..totalPages s]
                            (currentPage s = totalPages s)))))
      else Inr (PostsGrid (posts s) None))"

text \<open>The pagination bar of a view, when one is rendered.\<close>

fun pagination_of :: "blog_view \<Rightarrow> pagination option" where
  "pagination_of (PostsGrid ps pg) = pg"
| "pagination_of v = None"


section \<open>The contact form (pages/Contact.jsx)\<close>

text \<open>Source: the component \<open>Contact\<close> of \<open>src/frontend/src/pages/Contact.jsx\<close>.\<close>

record form_data =
  name :: string
  email :: string
  subject :: string
  message :: string

datatype field = Name | Email | Subject | Message

datatype post_outcome = PostResolved | PostRejected js_error

text \<open>
  The form's part of the component state, with the write requests it has issued
  (\<open>posted\<close>, the bodies in order) and those not yet settled (\<open>in_flight\<close>). The admin
  profile shown beside the form has its own state variable and fetch, which no part of
  the form reads or writes; it is left out.
\<close>

record contact_state =
  formData :: form_data
  isSubmitting :: bool
  submitStatus :: "string option"
  posted :: "form_data list"
  in_flight :: "form_data list"
  contact_console :: "string list"

definition empty_form :: form_data where
  "empty_form = \<lparr>name = '''', email = '''', subject = '''', message = ''''\<rparr>"

definition Contact_init :: contact_state where
  "Contact_init = \<lparr>formData = empty_form, isSubmitting = False, submitStatus = None,
     posted = [], in_flight = [], contact_console = []\<rparr>"

text \<open>\<open>handleChange\<close>: \<open>setFormData({...formData, [e.target.name]: e.target.value})\<close>.\<close>

definition handleChange :: "field \<Rightarrow> string \<Rightarrow> contact_state \<Rightarrow> contact_state" where
  "handleChange f v s =
     s\<lparr>formData := (case f of
                       Name \<Rightarrow> (formData s)\<lparr>name := v\<rparr>
                     | Email \<Rightarrow> (formData s)\<lparr>email := v\<rparr>
                     | Subject \<Rightarrow> (formData s)\<lparr>subject := v\<rparr>
                     | Message \<Rightarrow> (formData s)\<lparr>message := v\<rparr>)\<rparr>"

text \<open>
  \<open>handleSubmit\<close> up to its \<open>await\<close>: it marks the form as submitting, clears the
  status and posts the current field values. The handler has no test of its own on
  \<open>isSubmitting\<close>.
\<close>

definition handleSubmit_send :: "contact_state \<Rightarrow> contact_state" where
  "handleSubmit_send s =
     s\<lparr>isSubmitting := True, submitStatus := None,
       posted := posted s @ [formData s], in_flight := in_flight s @ [formData s]\<rparr>"

text \<open>
  \<open>handleSubmit\<close> after its \<open>await\<close>, when the oldest request in flight settles: the
  success branch sets the status and resets the fields, \<open>catch\<close> logs and sets the error
  status, \<open>finally\<close> clears \<open>isSubmitting\<close>.
\<close>

definition handleSubmit_settle :: "post_outcome \<Rightarrow> contact_state \<Rightarrow> contact_state" where
  "handleSubmit_settle outcome s =
     (case in_flight s of
        [] \<Rightarrow> s
      | body # rest \<Rightarrow>
          (case outcome of
             PostResolved \<Rightarrow>
               s\<lparr>submitStatus := Some ''success'', formData := empty_form,
                 isSubmitting := False, in_flight := rest\<rparr>
           | PostRejected e \<Rightarrow>
               s\<lparr>contact_console := contact_console s @ [''Error sending message:''],
                 submitStatus := Some ''error'', isSubmitting := False, in_flight := rest\<rparr>))"

text \<open>One whole submission, with nothing happening between the request and its outcome.\<close>

definition handleSubmit :: "post_outcome \<Rightarrow> contact_state \<Rightarrow> contact_state" where
  "handleSubmit outcome s = handleSubmit_settle outcome (handleSubmit_send s)"

text \<open>
  The rendered form: the banners (each rendered under its own test of \<open>submitStatus\<close>),
  the four controlled fields, and the submit button with its \<open>disabled\<close> attribute and
  its label.
\<close>

datatype banner = AlertSuccess | AlertError

record contact_view =
  banners :: "banner list"
  field_values :: form_data
  submit_disabled :: bool
  submit_label :: string

definition Contact :: "contact_state \<Rightarrow> contact_view" where
  "Contact s =
     \<lparr>banners = (if submitStatus s = Some ''success'' then [AlertSuccess] else [])
                 @ (if submitStatus s = Some ''error'' then [AlertError] else []),
      field_values = formData s,
      submit_disabled = isSubmitting s,
      submit_label = (if isSubmitting s then ''Sending...'' else ''Send Message'')\<rparr>"

text \<open>
  What can happen to the mounted form: the user types into a field, the user activates
  the submit control, or a request in flight settles. The browser does not submit a
  form through a submit button that carries \<open>disabled\<close>, so \<open>handleSubmit\<close> runs only
  when the rendered button is enabled. Native validation of the required fields can
  only suppress further submissions and is not modelled.
\<close>

datatype contact_event = Type field string | Submit | Settle post_outcome

fun contact_step :: "contact_event \<Rightarrow> contact_state \<Rightarrow> contact_state" where
  "contact_step (Type f v) s = handleChange f v s"
| "contact_step Submit s = (if submit_disabled (Contact s) then s else handleSubmit_send s)"
| "contact_step (Settle outcome) s = handleSubmit_settle outcome s"

inductive reachable :: "contact_state \<Rightarrow> bool" where
  reachable_init: "reachable Contact_init"
| reachable_step: "reachable s \<Longrightarrow> reachable (contact_step e s)"


section \<open>The Home view and its four reads (pages/Home.jsx, version with the admin profile)\<close>

text \<open>
  Source: the component \<open>Home\<close> that follows \<open>Contact\<close> in
  \<open>src/frontend/src/pages/Contact.jsx\<close>. The older \<open>src/unnamed/part_006\<close> has the same
  \<open>fetchData\<close> without the request for the admin profile.
\<close>

record skill =
  skill_id :: int
  skill_name :: string
  proficiency :: int

record admin_profile =
  first_name :: string
  last_name :: string

record home_state =
  skills :: "skill stored"
  featuredProjects :: "project stored"
  recentPosts :: "post stored"
  adminProfile :: "admin_profile option"
  home_requests :: "string list"
  home_console :: "string list"

definition Home_init :: home_state where
  "Home_init = \<lparr>skills = Arr [], featuredProjects = Arr [], recentPosts = Arr [],
     adminProfile = None, home_requests = [], home_console = []\<rparr>"

text \<open>The outcome of each of the four requests, should the code come to issue it.\<close>

record home_responses =
  profile_response :: "admin_profile response"
  skills_response :: "skill stored response"
  projects_response :: "project stored response"
  posts_response :: "post stored response"

text \<open>
  \<open>v.slice(0, n)\<close>: the first \<open>n\<close> elements of an array or characters of a string; any
  other value has no \<open>slice\<close>, and the call raises a TypeError.
\<close>

definition slice0 :: "nat \<Rightarrow> 'a stored \<Rightarrow> js_error + 'a stored" where
  "slice0 n v =
     (case v of
        Arr xs \<Rightarrow> Inr (Arr (take n xs))
      | Prim (JStr str) \<Rightarrow> Inr (Prim (JStr (take n str)))
      | _ \<Rightarrow> Inl (TypeError ''results.slice''))"

text \<open>\<open>v.filter(f)\<close>: only an array has \<open>filter\<close>.\<close>

definition js_filter :: "('a \<Rightarrow> bool) \<Rightarrow> 'a stored \<Rightarrow> js_error + 'a stored" where
  "js_filter f v =
     (case v of
        Arr xs \<Rightarrow> Inr (Arr (filter f xs))
      | _ \<Rightarrow> Inl (TypeError ''results.filter''))"

text \<open>The \<open>catch\<close> block of \<open>fetchData\<close>: it logs, and the function ends.\<close>

definition fetchData_catch :: "home_state \<Rightarrow> home_state" where
  "fetchData_catch s = s\<lparr>home_console := home_console s @ [''Error fetching data:'']\<rparr>"

definition axios_get :: "string \<Rightarrow> home_state \<Rightarrow> home_state" where
  "axios_get url s = s\<lparr>home_requests := home_requests s @ [url]\<rparr>"

text \<open>
  \<open>fetchData\<close> is one \<open>try\<close> block of four awaited requests in sequence, each followed
  by its state update. It is written here from the last request back to the first, each
  part continuing with the next only when nothing was thrown: a rejected request, a
  \<open>data\<close> without properties, or a \<open>results\<close> without \<open>slice\<close> or \<open>filter\<close> jumps to
  \<open>catch\<close>.
\<close>

definition fetchData_posts :: "home_responses \<Rightarrow> home_state \<Rightarrow> home_state" where
  "fetchData_posts rs s =
     (let s1 = axios_get ''http://127.0.0.1:8000/api/v1/blog/posts/'' s
      in case posts_response rs of
           Data res \<Rightarrow>
             (case slice0 3 res of
                Inr v \<Rightarrow> s1\<lparr>recentPosts := v\<rparr>
              | Inl e \<Rightarrow> fetchData_catch s1)
         | _ \<Rightarrow> fetchData_catch s1)"

definition fetchData_projects :: "home_responses \<Rightarrow> home_state \<Rightarrow> home_state" where
  "fetchData_projects rs s =
     (let s1 = axios_get ''http://127.0.0.1:8000/api/v1/portfolio/projects/'' s
      in case projects_response rs of
           Data res \<Rightarrow>
             (case js_filter (\<lambda>project. truthy (featured project)) res of
                Inr v \<Rightarrow>
                  (case slice0 3 v of
                     Inr w \<Rightarrow> fetchData_posts rs (s1\<lparr>featuredProjects := w\<rparr>)
                   | Inl e \<Rightarrow> fetchData_catch s1)
              | Inl e \<Rightarrow> fetchData_catch s1)
         | _ \<Rightarrow> fetchData_catch s1)"

definition fetchData_skills :: "home_responses \<Rightarrow> home_state \<Rightarrow> home_state" where
  "fetchData_skills rs s =
     (let s1 = axios_get ''http://127.0.0.1:8000/api/v1/portfolio/skills/'' s
      in case skills_response rs of
           Data res \<Rightarrow>
             (case slice0 6 res of
                Inr v \<Rightarrow> fetchData_projects rs (s1\<lparr>skills := v\<rparr>)
              | Inl e \<Rightarrow> fetchData_catch s1)
         | _ \<Rightarrow> fetchData_catch s1)"

text \<open>
  The first request. \<open>setAdminProfile(profileResponse.data)\<close> reads no property of
  \<open>data\<close>, so a response without data stores no profile and the function goes on.
\<close>

definition fetchData :: "home_responses \<Rightarrow> home_state \<Rightarrow> home_state" where
  "fetchData rs s =
     (let s1 = axios_get ''http://127.0.0.1:8000/api/v1/portfolio/admin-profile/'' s
      in case profile_response rs of
           Rejected e \<Rightarrow> fetchData_catch s1
         | NoData \<Rightarrow> fetchData_skills rs (s1\<lparr>adminProfile := None\<rparr>)
         | Data d \<Rightarrow> fetchData_skills rs (s1\<lparr>adminProfile := Some d\<rparr>))"


section \<open>Dates: \<open>new Date(v).toLocaleDateString('en-US', options)\<close>\<close>

text \<open>
  \<open>formatDate\<close> is one call into the platform. The platform is modelled after
  ECMAScript: a Date holds a time value in milliseconds since the epoch, or NaN
  (\<open>None\<close>, an invalid date). What the standard leaves to the host is a parameter:
  \<open>Date_parse\<close> (which strings parse, and to what), \<open>LocalTZA\<close> (the offset of local
  time from UTC, in milliseconds) and \<open>year_text\<close> (how the locale data writes a year).
\<close>

record js_env =
  Date_parse :: "string \<Rightarrow> int option"
  LocalTZA :: int
  year_text :: "int \<Rightarrow> string"

text \<open>\<open>TimeClip\<close>: a time value beyond 8.64e15 ms from the epoch is NaN.\<close>

definition TimeClip :: "int \<Rightarrow> int option" where
  "TimeClip t = (if \<bar>t\<bar> \<le> 8640000000000000 then Some t else None)"

text \<open>
  \<open>new Date(v)\<close>: a string is parsed; any other value is converted by \<open>ToNumber\<close>, which
  gives NaN for \<open>undefined\<close>, 0 for \<open>null\<close> and \<open>false\<close>, 1 for \<open>true\<close>.
\<close>

fun Date_new :: "js_env \<Rightarrow> jsval \<Rightarrow> int option" where
  "Date_new env JUndefined = None"
| "Date_new env JNull = TimeClip 0"
| "Date_new env (JBool b) = TimeClip (if b then 1 else 0)"
| "Date_new env (JNum n) = TimeClip n"
| "Date_new env (JStr s) = (case Date_parse env s of None \<Rightarrow> None | Some t \<Rightarrow> TimeClip t)"

text \<open>
  The civil date (year, month 1..12, day 1..31) of a day number counted from
  1970-01-01, in the proleptic Gregorian calendar; \<open>div\<close> rounds down, as \<open>floor\<close> does
  in the standard's \<open>Day(t)\<close>.
\<close>

definition civil_from_days :: "int \<Rightarrow> int \<times> int \<times> int" where
  "civil_from_days days =
     (let z = days + 719468;
          era = z div 146097;
          doe = z - era * 146097;
          yoe = (doe - doe div 1460 + doe div 36524 - doe div 146096) div 365;
          doy = doe - (365 * yoe + yoe div 4 - yoe div 100);
          mp = (5 * doy + 2) div 153;
          d = doy - (153 * mp + 2) div 5 + 1;
          m = (if mp < 10 then mp + 3 else mp - 9);
          y = yoe + era * 400 + (if m \<le> 2 then 1 else 0)
      in (y, m, d))"

text \<open>The month names of the \<open>en-US\<close> locale, for the months 1 to 12.\<close>

definition month_names :: "string list" where
  "month_names = [''January'', ''February'', ''March'', ''April'', ''May'', ''June'', ''July'',
     ''August'', ''September'', ''October'', ''November'', ''December'']"

definition month_name :: "int \<Rightarrow> string" where
  "month_name m = month_names ! nat ((m - 1) mod 12)"

text \<open>A natural number in decimal digits.\<close>

fun decimal :: "nat \<Rightarrow> string" where
  "decimal n =
     (if n < 10 then [''0123456789'' ! n]
      else decimal (n div 10) @ [''0123456789'' ! (n mod 10)])"

text \<open>
  \<open>toLocaleDateString('en-US', { year: 'numeric', month: 'long' })\<close>: the string
  \<open>Invalid Date\<close> for an invalid date, else the month name and the year of the local day.
\<close>

definition toLocaleDateString_month_year :: "js_env \<Rightarrow> int option \<Rightarrow> string" where
  "toLocaleDateString_month_year env tv =
     (case tv of
        None \<Rightarrow> ''Invalid Date''
      | Some t \<Rightarrow>
          (case civil_from_days ((t + LocalTZA env) div 86400000) of
             (y, m, d) \<Rightarrow> month_name m @ '' '' @ year_text env y))"

text \<open>The same with \<open>day: 'numeric'\<close>, as the blog pages ask for: month, day, year.\<close>

definition toLocaleDateString_long :: "js_env \<Rightarrow> int option \<Rightarrow> string" where
  "toLocaleDateString_long env tv =
     (case tv of
        None \<Rightarrow> ''Invalid Date''
      | Some t \<Rightarrow>
          (case civil_from_days ((t + LocalTZA env) div 86400000) of
             (y, m, d) \<Rightarrow> month_name m @ '' '' @ decimal (nat d) @ '', '' @ year_text env y))"

text \<open>\<open>formatDate\<close> of the Portfolio page, and \<open>formatDate\<close> of the Blog page.\<close>

definition formatDate :: "js_env \<Rightarrow> jsval \<Rightarrow> string" where
  "formatDate env dateString = toLocaleDateString_month_year env (Date_new env dateString)"

definition formatDate_blog :: "js_env \<Rightarrow> jsval \<Rightarrow> string" where
  "formatDate_blog env dateString = toLocaleDateString_long env (Date_new env dateString)"

text \<open>A host in UTC that parses no string and writes a year in decimal digits.\<close>

definition utc_env :: js_env where
  "utc_env = \<lparr>Date_parse = (\<lambda>s. None), LocalTZA = 0,
     year_text = (\<lambda>y. if 0 \<le> y then decimal (nat y) else CHR ''-'' # decimal (nat (- y)))\<rparr>"


declare decimal.simps [simp del]


section \<open>Sample data\<close>

text \<open>Projects as the content API returns them, used to run the definitions.\<close>

definition shop_project :: project where
  "shop_project = \<lparr>project_id = 1, title = ''E-commerce Website'', category = JStr ''web'',
     technologies = TechList [JStr ''React'', JStr ''Django''], featured = JBool True,
     created_at = JStr ''2024-01-15T10:30:00Z''\<rparr>"

definition bank_project :: project where
  "bank_project = \<lparr>project_id = 2, title = ''Mobile Banking App'', category = JStr ''mobile'',
     technologies = TechList [JStr ''React'', JStr ''Node.js''], featured = JBool False,
     created_at = JStr ''2024-02-20T14:45:00Z''\<rparr>"

definition uncategorized_project :: project where
  "uncategorized_project = \<lparr>project_id = 3, title = ''Sketches'', category = JNull,
     technologies = TechNull, featured = JNull, created_at = JNull\<rparr>"

definition blank_technology_project :: project where
  "blank_technology_project = \<lparr>project_id = 4, title = ''Notes'', category = JStr ''web'',
     technologies = TechList [JStr '''', JStr ''React''], featured = JNull,
     created_at = JStr ''2024-03-10T09:15:00Z''\<rparr>"

text \<open>A blog post as the listing shows it.\<close>

definition first_post :: post where
  "first_post = \<lparr>post_id = 1, post_title = ''Getting Started'', slug = ''getting-started''\<rparr>"

text \<open>A skill, a profile, and the outcomes of the four requests of the Home view.\<close>

definition react_skill :: skill where
  "react_skill = \<lparr>skill_id = 1, skill_name = ''React'', proficiency = 4\<rparr>"

definition owner_profile :: admin_profile where
  "owner_profile = \<lparr>first_name = ''Mohamed'', last_name = ''Rabiaa''\<rparr>"

definition all_resolved :: home_responses where
  "all_resolved = \<lparr>profile_response = Data owner_profile,
     skills_response = Data (Arr [react_skill]),
     projects_response = Data (Arr [shop_project, bank_project]),
     posts_response = Data (Arr [first_post])\<rparr>"

definition profile_rejected :: home_responses where
  "profile_rejected = all_resolved\<lparr>profile_response := Rejected (AxiosError ''Network Error'')\<rparr>"


section \<open>Facts about the definitions\<close>

text \<open>The keys that \<open>new Set\<close> yields are the distinct values in first-seen order.\<close>

lemma fold_new_Set:
  "fold (\<lambda>x acc. if x \<in> set acc then acc else acc @ [x]) xs acc
     = acc @ filter (\<lambda>y. y \<notin> set acc) (distinct_first_seen xs)"
proof (induction xs arbitrary: acc)
  case Nil
  show ?case by simp
next
  case (Cons x xs)
  show ?case
  proof (cases "x \<in> set acc")
    case True
    have "filter (\<lambda>y. y \<notin> set acc) (removeAll x (distinct_first_seen xs))
            = filter (\<lambda>y. y \<notin> set acc) (distinct_first_seen xs)"
      using True by (auto simp: removeAll_filter_not_eq intro: filter_cong)
    with True Cons.IH [of acc] show ?thesis by simp
  next
    case False
    have "filter (\<lambda>y. y \<notin> set (acc @ [x])) (distinct_first_seen xs)
            = filter (\<lambda>y. y \<notin> set acc) (removeAll x (distinct_first_seen xs))"
      by (auto simp: removeAll_filter_not_eq intro: filter_cong)
    with False Cons.IH [of "acc @ [x]"] show ?thesis by simp
  qed
qed

lemma new_Set_first_seen: "new_Set xs = distinct_first_seen xs"
  by (simp add: new_Set_def fold_new_Set)

lemma set_distinct_first_seen: "set (distinct_first_seen xs) = set xs"
  by (induction xs) auto

lemma distinct_distinct_first_seen: "distinct (distinct_first_seen xs)"
  by (induction xs) (auto simp: distinct_removeAll)

lemma filterProjects_Arr:
  "projects s = Arr items \<Longrightarrow>
   filterProjects key s =
     Inr (s\<lparr>selectedCategory := key,
            filteredProjects := (if key = JStr ''all'' then Arr items
                                 else Arr (filter (\<lambda>project. category project = key) items))\<rparr>)"
  by (simp add: filterProjects_def Let_def)

lemma filterProjects_v2_Arr:
  "projects s = Arr items \<Longrightarrow>
   filterProjects_v2 key s =
     Inr (s\<lparr>selectedCategory := key,
            filteredProjects := (if key = JStr ''all'' then Arr items
                                 else Arr (filter (uses_technology key) items))\<rparr>)"
  by (simp add: filterProjects_v2_def Let_def)

lemma fetchProjects_Data:
  "fetchProjects (Data res) s =
     s\<lparr>requests := requests s @ [''http://127.0.0.1:8000/api/portfolio/projects/''],
       projects := res, filteredProjects := res, loading := False\<rparr>"
  by (simp add: fetchProjects_def Let_def)

lemma fetchProjects_v2_Data:
  "fetchProjects_v2 (Data res) s =
     s\<lparr>requests := requests s @ [''http://127.0.0.1:8000/api/v1/portfolio/projects/''],
       projects := res, filteredProjects := res, loading := False\<rparr>"
  by (simp add: fetchProjects_v2_def Let_def)


section \<open>The claims about the filterable list view\<close>

text \<open>
  C1. Round trip of the filter. Whatever state the view was in before, once a list of
  projects has been fetched, applying any key derived from that list and then the key
  \<open>all\<close> succeeds twice and leaves \<open>filteredProjects\<close> equal to the fetched list, element
  for element in the original order. This holds for the category keys of
  \<open>filterProjects\<close> and for the technology keys of version 2.0.0.
\<close>

theorem C1_filter_then_all_restores_fetched_list:
  "(categories (Arr items) = Inr keys \<and> key \<in> set keys \<longrightarrow>
      (\<exists>s1 s2. filterProjects key (fetchProjects (Data (Arr items)) s) = Inr s1
          \<and> filterProjects (JStr ''all'') s1 = Inr s2
          \<and> filteredProjects s2 = Arr items \<and> projects s2 = Arr items))
   \<and> (technologies_v2 (Arr items) = Inr keys \<and> key \<in> set keys \<longrightarrow>
      (\<exists>s1 s2. filterProjects_v2 key (fetchProjects_v2 (Data (Arr items)) s) = Inr s1
          \<and> filterProjects_v2 (JStr ''all'') s1 = Inr s2
          \<and> filteredProjects s2 = Arr items \<and> projects s2 = Arr items))"
  by (simp add: filterProjects_Arr filterProjects_v2_Arr fetchProjects_Data fetchProjects_v2_Data)

theorem C1_witness:
  "categories (Arr [shop_project, bank_project]) = Inr [JStr ''all'', JStr ''web'', JStr ''mobile'']
   \<and> JStr ''mobile'' \<in> set [JStr ''all'', JStr ''web'', JStr ''mobile'']
   \<and> (\<exists>s1 s2. filterProjects (JStr ''mobile'')
                  (fetchProjects (Data (Arr [shop_project, bank_project])) Portfolio_init) = Inr s1
          \<and> filteredProjects s1 = Arr [bank_project]
          \<and> filterProjects (JStr ''all'') s1 = Inr s2
          \<and> filteredProjects s2 = Arr [shop_project, bank_project])
   \<and> technologies_v2 (Arr [shop_project, bank_project])
        = Inr [JStr ''all'', JStr ''React'', JStr ''Django'', JStr ''Node.js'']
   \<and> (\<exists>s1 s2. filterProjects_v2 (JStr ''Django'')
                  (fetchProjects_v2 (Data (Arr [shop_project, bank_project])) Portfolio_init) = Inr s1
          \<and> filteredProjects s1 = Arr [shop_project]
          \<and> filterProjects_v2 (JStr ''all'') s1 = Inr s2
          \<and> filteredProjects s2 = Arr [shop_project, bank_project])"
proof -
  have k1: "categories (Arr [shop_project, bank_project]) = Inr [JStr ''all'', JStr ''web'', JStr ''mobile'']"
    by (simp add: categories_def new_Set_def shop_project_def bank_project_def)
  have k2: "technologies_v2 (Arr [shop_project, bank_project])
        = Inr [JStr ''all'', JStr ''React'', JStr ''Django'', JStr ''Node.js'']"
    by (simp add: technologies_v2_def technologies_or_empty_def new_Set_def shop_project_def bank_project_def)
  from k1 k2 C1_filter_then_all_restores_fetched_list
    [of "[shop_project, bank_project]" "[JStr ''all'', JStr ''web'', JStr ''mobile'']" "JStr ''mobile''" Portfolio_init]
  show ?thesis
    by (simp add: filterProjects_Arr filterProjects_v2_Arr fetchProjects_Data fetchProjects_v2_Data
        uses_technology_def shop_project_def bank_project_def)
qed

text \<open>
  The claim C2 fails as it is stated on the technology keys of version 2.0.0: an empty
  string inside a \<open>technologies\<close> array is a falsy value, and it becomes a filter key.
\<close>

theorem C2_counterexample_blank_technology_key:
  "technologies_v2 (Arr [blank_technology_project]) = Inr [JStr ''all'', JStr [], JStr ''React'']
   \<and> \<not> truthy (JStr [])"
  by (simp add: technologies_v2_def technologies_or_empty_def new_Set_def blank_technology_project_def)

text \<open>
  C2, amended. The category keys are \<open>all\<close> followed by the distinct truthy category
  values in first-seen order, so no key after the sentinel is \<open>null\<close>, \<open>undefined\<close> or
  the empty string; a list with a \<open>null\<close> category and the category \<open>web\<close> yields
  exactly \<open>all\<close>, \<open>web\<close>; and after the fetch the selected key is \<open>all\<close> and every
  fetched item, whatever its category, is in \<open>filteredProjects\<close>. The technology keys
  of version 2.0.0 are \<open>all\<close> followed by the distinct elements of the \<open>technologies\<close>
  arrays in first-seen order: a project whose \<open>technologies\<close> is absent, \<open>null\<close> or empty
  contributes no key, and the elements of an array are taken as they are. In both
  lists the keys after the sentinel are pairwise distinct and are exactly the values
  that occur.
\<close>

theorem C2_filter_keys_by_variant:
  "categories (Arr items)
     = Inr (JStr ''all'' # distinct_first_seen (filter truthy (map category items)))
   \<and> (\<forall>k \<in> set (distinct_first_seen (filter truthy (map category items))).
         truthy k \<and> k \<noteq> JNull \<and> k \<noteq> JUndefined \<and> k \<noteq> JStr [])
   \<and> categories (Arr [uncategorized_project, shop_project]) = Inr [JStr ''all'', JStr ''web'']
   \<and> selectedCategory (fetchProjects (Data (Arr items)) Portfolio_init) = JStr ''all''
   \<and> filteredProjects (fetchProjects (Data (Arr items)) Portfolio_init) = Arr items
   \<and> technologies_v2 (Arr items)
       = Inr (JStr ''all'' # distinct_first_seen (concat (map technologies_or_empty items)))
   \<and> (technologies p = TechUndefined \<or> technologies p = TechNull \<or> technologies p = TechList []
        \<longrightarrow> technologies_or_empty p = [])
   \<and> (technologies p = TechList ts \<longrightarrow> technologies_or_empty p = ts)
   \<and> distinct (distinct_first_seen (filter truthy (map category items)))
   \<and> set (distinct_first_seen (filter truthy (map category items)))
       = {v \<in> category ` set items. truthy v}
   \<and> distinct (distinct_first_seen (concat (map technologies_or_empty items)))
   \<and> set (distinct_first_seen (concat (map technologies_or_empty items)))
       = (\<Union>project \<in> set items. set (technologies_or_empty project))"
proof -
  have keys: "categories (Arr items)
     = Inr (JStr ''all'' # distinct_first_seen (filter truthy (map category items)))"
    by (simp add: categories_def new_Set_first_seen)
  have excluded: "\<forall>k \<in> set (distinct_first_seen (filter truthy (map category items))).
         truthy k \<and> k \<noteq> JNull \<and> k \<noteq> JUndefined \<and> k \<noteq> JStr []"
    by (auto simp: set_distinct_first_seen)
  have scenario: "categories (Arr [uncategorized_project, shop_project]) = Inr [JStr ''all'', JStr ''web'']"
    by (simp add: categories_def new_Set_def uncategorized_project_def shop_project_def)
  have shown: "selectedCategory (fetchProjects (Data (Arr items)) Portfolio_init) = JStr ''all''
      \<and> filteredProjects (fetchProjects (Data (Arr items)) Portfolio_init) = Arr items"
    by (simp add: fetchProjects_Data Portfolio_init_def)
  have keys2: "technologies_v2 (Arr items)
       = Inr (JStr ''all'' # distinct_first_seen (concat (map technologies_or_empty items)))"
    by (simp add: technologies_v2_def new_Set_first_seen)
  have absent: "technologies p = TechUndefined \<or> technologies p = TechNull \<or> technologies p = TechList []
        \<longrightarrow> technologies_or_empty p = []"
    by (auto simp: technologies_or_empty_def)
  have present: "technologies p = TechList ts \<longrightarrow> technologies_or_empty p = ts"
    by (simp add: technologies_or_empty_def)
  have members: "set (distinct_first_seen (filter truthy (map category items)))
       = {v \<in> category ` set items. truthy v}"
    by (auto simp: set_distinct_first_seen)
  have members2: "set (distinct_first_seen (concat (map technologies_or_empty items)))
       = (\<Union>project \<in> set items. set (technologies_or_empty project))"
    by (simp add: set_distinct_first_seen)
  show ?thesis
    by (intro conjI) (rule keys excluded scenario shown [THEN conjunct1] shown [THEN conjunct2]
          keys2 absent present distinct_distinct_first_seen members members2)+
qed

theorem C2_witness:
  "categories (Arr [uncategorized_project, shop_project, bank_project, shop_project])
     = Inr [JStr ''all'', JStr ''web'', JStr ''mobile'']
   \<and> truthy (JStr ''web'') \<and> truthy (JStr ''mobile'')
   \<and> filteredProjects (fetchProjects (Data (Arr [uncategorized_project, shop_project])) Portfolio_init)
       = Arr [uncategorized_project, shop_project]
   \<and> technologies_v2 (Arr [uncategorized_project, shop_project, bank_project])
       = Inr [JStr ''all'', JStr ''React'', JStr ''Django'', JStr ''Node.js'']
   \<and> technologies uncategorized_project = TechNull
   \<and> technologies_or_empty uncategorized_project = []"
proof -
  note thm1 = C2_filter_keys_by_variant
    [of "[uncategorized_project, shop_project, bank_project, shop_project]" uncategorized_project "[]"]
  note thm2 = C2_filter_keys_by_variant
    [of "[uncategorized_project, shop_project]" uncategorized_project "[]"]
  note thm3 = C2_filter_keys_by_variant
    [of "[uncategorized_project, shop_project, bank_project]" uncategorized_project "[]"]
  have null: "technologies uncategorized_project = TechNull"
    by (simp add: uncategorized_project_def)
  have a: "categories (Arr [uncategorized_project, shop_project, bank_project, shop_project])
     = Inr [JStr ''all'', JStr ''web'', JStr ''mobile'']"
    using thm1 [THEN conjunct1]
    by (simp add: uncategorized_project_def shop_project_def bank_project_def)
  have b: "filteredProjects (fetchProjects (Data (Arr [uncategorized_project, shop_project])) Portfolio_init)
       = Arr [uncategorized_project, shop_project]"
    by (rule thm2 [THEN conjunct2, THEN conjunct2, THEN conjunct2, THEN conjunct2, THEN conjunct1])
  have c: "technologies_v2 (Arr [uncategorized_project, shop_project, bank_project])
       = Inr [JStr ''all'', JStr ''React'', JStr ''Django'', JStr ''Node.js'']"
    using thm3 [THEN conjunct2, THEN conjunct2, THEN conjunct2, THEN conjunct2, THEN conjunct2, THEN conjunct1]
    by (simp add: technologies_or_empty_def uncategorized_project_def shop_project_def bank_project_def)
  have d: "technologies_or_empty uncategorized_project = []"
    by (rule thm1 [THEN conjunct2, THEN conjunct2, THEN conjunct2, THEN conjunct2, THEN conjunct2,
                   THEN conjunct2, THEN conjunct1, THEN mp])
       (simp add: null)
  show ?thesis
    by (intro conjI) (rule a b c d null | simp)+
qed

text \<open>
  The callback of the filter of version 2.0.0 keeps exactly the projects whose
  \<open>technologies\<close> is an array with an element equal to the key.
\<close>

lemma uses_technology_iff:
  "uses_technology key p \<longleftrightarrow> (\<exists>ts. technologies p = TechList ts \<and> key \<in> set ts)"
  by (cases "technologies p") (simp_all add: uses_technology_def)

text \<open>
  C5. \<open>filterProjects(key)\<close> on a state holding a list of projects: it succeeds, sets
  the selected key to \<open>key\<close>, and sets \<open>filteredProjects\<close> to the whole list when \<open>key\<close>
  is \<open>all\<close> and otherwise to the sublist, in order, of the items whose filter field
  equals \<open>key\<close>: whose category is \<open>key\<close>, and in version 2.0.0 whose \<open>technologies\<close>
  is an array holding \<open>key\<close>. It changes nothing else: no request is issued and
  nothing is logged. Applying the same key to the result gives the result again.
\<close>

theorem C5_filterProjects_sets_filter_and_visible_items:
  "projects s = Arr items \<longrightarrow>
     (\<exists>s'. filterProjects key s = Inr s'
         \<and> selectedCategory s' = key
         \<and> filteredProjects s' =
              (if key = JStr ''all'' then Arr items
               else Arr (filter (\<lambda>project. category project = key) items))
         \<and> projects s' = projects s \<and> loading s' = loading s
         \<and> requests s' = requests s \<and> console s' = console s
         \<and> filterProjects key s' = Inr s')
   \<and> (\<exists>s'. filterProjects_v2 key s = Inr s'
         \<and> selectedCategory s' = key
         \<and> filteredProjects s' =
              (if key = JStr ''all'' then Arr items
               else Arr (filter (\<lambda>project. \<exists>ts. technologies project = TechList ts \<and> key \<in> set ts)
                           items))
         \<and> projects s' = projects s \<and> loading s' = loading s
         \<and> requests s' = requests s \<and> console s' = console s
         \<and> filterProjects_v2 key s' = Inr s')"
proof -
  have same: "filter (uses_technology key) items
      = filter (\<lambda>project. \<exists>ts. technologies project = TechList ts \<and> key \<in> set ts) items"
    by (rule filter_cong) (simp_all add: uses_technology_iff)
  show ?thesis
    by (simp add: filterProjects_Arr filterProjects_v2_Arr same)
qed

theorem C5_witness:
  "projects (fetchProjects (Data (Arr [shop_project, bank_project, uncategorized_project])) Portfolio_init)
     = Arr [shop_project, bank_project, uncategorized_project]
   \<and> (\<exists>s'. filterProjects (JStr ''mobile'')
              (fetchProjects (Data (Arr [shop_project, bank_project, uncategorized_project])) Portfolio_init) = Inr s'
         \<and> selectedCategory s' = JStr ''mobile''
         \<and> filteredProjects s' = Arr [bank_project]
         \<and> requests s' = [''http://127.0.0.1:8000/api/portfolio/projects/'']
         \<and> filterProjects (JStr ''mobile'') s' = Inr s')
   \<and> projects (fetchProjects_v2 (Data (Arr [shop_project, bank_project, uncategorized_project])) Portfolio_init)
     = Arr [shop_project, bank_project, uncategorized_project]
   \<and> (\<exists>s'. filterProjects_v2 (JStr ''Node.js'')
              (fetchProjects_v2 (Data (Arr [shop_project, bank_project, uncategorized_project])) Portfolio_init) = Inr s'
         \<and> selectedCategory s' = JStr ''Node.js''
         \<and> filteredProjects s' = Arr [bank_project]
         \<and> requests s' = [''http://127.0.0.1:8000/api/v1/portfolio/projects/'']
         \<and> filterProjects_v2 (JStr ''Node.js'') s' = Inr s')
   \<and> (\<exists>s'. filterProjects_v2 (JStr ''Django'')
              (fetchProjects_v2 (Data (Arr [shop_project, bank_project, uncategorized_project])) Portfolio_init) = Inr s'
         \<and> filteredProjects s' = Arr [shop_project])
   \<and> (\<exists>s'. filterProjects_v2 (JStr ''Rust'')
              (fetchProjects_v2 (Data (Arr [shop_project, bank_project, uncategorized_project])) Portfolio_init) = Inr s'
         \<and> filteredProjects s' = Arr [])"
proof -
  let ?items = "[shop_project, bank_project, uncategorized_project]"
  let ?s = "fetchProjects (Data (Arr ?items)) Portfolio_init"
  let ?t = "fetchProjects_v2 (Data (Arr ?items)) Portfolio_init"
  have arr: "projects ?s = Arr ?items"
    by (simp add: fetchProjects_Data)
  have arr2: "projects ?t = Arr ?items"
    by (simp add: fetchProjects_v2_Data)
  have reqs: "requests ?s = [''http://127.0.0.1:8000/api/portfolio/projects/'']"
    by (simp add: fetchProjects_Data Portfolio_init_def)
  have reqs2: "requests ?t = [''http://127.0.0.1:8000/api/v1/portfolio/projects/'']"
    by (simp add: fetchProjects_v2_Data Portfolio_init_def)
  have f1: "filter (\<lambda>project. category project = JStr ''mobile'') ?items = [bank_project]"
    by (simp add: shop_project_def bank_project_def uncategorized_project_def)
  have f2: "filter (\<lambda>project. \<exists>ts. technologies project = TechList ts \<and> JStr ''Node.js'' \<in> set ts) ?items
      = [bank_project]"
    by (simp add: shop_project_def bank_project_def uncategorized_project_def)
  have f3: "filter (\<lambda>project. \<exists>ts. technologies project = TechList ts \<and> JStr ''Django'' \<in> set ts) ?items
      = [shop_project]"
    by (simp add: shop_project_def bank_project_def uncategorized_project_def)
  have f4: "filter (\<lambda>project. \<exists>ts. technologies project = TechList ts \<and> JStr ''Rust'' \<in> set ts) ?items
      = []"
    by (simp add: shop_project_def bank_project_def uncategorized_project_def)
  from C5_filterProjects_sets_filter_and_visible_items [of ?s ?items "JStr ''mobile''"] arr reqs f1
  have a: "\<exists>s'. filterProjects (JStr ''mobile'') ?s = Inr s'
         \<and> selectedCategory s' = JStr ''mobile''
         \<and> filteredProjects s' = Arr [bank_project]
         \<and> requests s' = [''http://127.0.0.1:8000/api/portfolio/projects/'']
         \<and> filterProjects (JStr ''mobile'') s' = Inr s'"
    by auto
  from C5_filterProjects_sets_filter_and_visible_items [of ?t ?items "JStr ''Node.js''"] arr2 reqs2 f2
  have b: "\<exists>s'. filterProjects_v2 (JStr ''Node.js'') ?t = Inr s'
         \<and> selectedCategory s' = JStr ''Node.js''
         \<and> filteredProjects s' = Arr [bank_project]
         \<and> requests s' = [''http://127.0.0.1:8000/api/v1/portfolio/projects/'']
         \<and> filterProjects_v2 (JStr ''Node.js'') s' = Inr s'"
    by auto
  from C5_filterProjects_sets_filter_and_visible_items [of ?t ?items "JStr ''Django''"] arr2 f3
  have c: "\<exists>s'. filterProjects_v2 (JStr ''Django'') ?t = Inr s' \<and> filteredProjects s' = Arr [shop_project]"
    by auto
  from C5_filterProjects_sets_filter_and_visible_items [of ?t ?items "JStr ''Rust''"] arr2 f4
  have d: "\<exists>s'. filterProjects_v2 (JStr ''Rust'') ?t = Inr s' \<and> filteredProjects s' = Arr []"
    by auto
  show ?thesis
    by (intro conjI) (rule arr arr2 a b c d)+
qed

text \<open>How the fetch ends when the request fails, and the keys of an empty list.\<close>

lemma fetchProjects_failed:
  "r = Rejected e \<or> r = NoData \<Longrightarrow>
   fetchProjects r s =
     s\<lparr>requests := requests s @ [''http://127.0.0.1:8000/api/portfolio/projects/''],
       console := console s @ [''Error fetching projects:''], loading := False\<rparr>"
  by (auto simp: fetchProjects_def Let_def)

lemma fetchProjects_v2_failed:
  "r = Rejected e \<or> r = NoData \<Longrightarrow>
   fetchProjects_v2 r s =
     s\<lparr>requests := requests s @ [''http://127.0.0.1:8000/api/v1/portfolio/projects/''],
       console := console s @ [''Error fetching projects:''], loading := False\<rparr>"
  by (auto simp: fetchProjects_v2_def Let_def)

lemma categories_Nil: "categories (Arr []) = Inr [JStr ''all'']"
  by (simp add: categories_def new_Set_def)

lemma technologies_v2_Nil: "technologies_v2 (Arr []) = Inr [JStr ''all'']"
  by (simp add: technologies_v2_def new_Set_def)

text \<open>
  C4. When the initial request of the Portfolio view is rejected, whatever the error,
  \<open>fetchProjects\<close> ends normally with one diagnostic logged, \<open>loading\<close> false and both
  lists still empty; the view then renders, without raising, the single key \<open>all\<close> and
  its empty-state message; and exactly one request has been issued, so nothing was
  retried. The same holds for version 2.0.0.
\<close>

theorem C4_failed_fetch_gives_empty_state:
  "console (fetchProjects (Rejected e) Portfolio_init) = [''Error fetching projects:'']
   \<and> loading (fetchProjects (Rejected e) Portfolio_init) = False
   \<and> projects (fetchProjects (Rejected e) Portfolio_init) = Arr []
   \<and> filteredProjects (fetchProjects (Rejected e) Portfolio_init) = Arr []
   \<and> Portfolio (fetchProjects (Rejected e) Portfolio_init)
       = Inr (PortfolioPage [JStr ''all''] (JStr ''all'')
               (NoProjects ''No projects found for the selected category.''))
   \<and> requests (fetchProjects (Rejected e) Portfolio_init)
       = [''http://127.0.0.1:8000/api/portfolio/projects/'']
   \<and> console (fetchProjects_v2 (Rejected e) Portfolio_init) = [''Error fetching projects:'']
   \<and> loading (fetchProjects_v2 (Rejected e) Portfolio_init) = False
   \<and> projects (fetchProjects_v2 (Rejected e) Portfolio_init) = Arr []
   \<and> filteredProjects (fetchProjects_v2 (Rejected e) Portfolio_init) = Arr []
   \<and> Portfolio_v2 (fetchProjects_v2 (Rejected e) Portfolio_init)
       = Inr (PortfolioPage [JStr ''all''] (JStr ''all'')
               (NoProjects ''No projects found for the selected technology.''))
   \<and> requests (fetchProjects_v2 (Rejected e) Portfolio_init)
       = [''http://127.0.0.1:8000/api/v1/portfolio/projects/'']"
  by (simp add: fetchProjects_failed fetchProjects_v2_failed Portfolio_init_def Portfolio_def
      Portfolio_v2_def categories_Nil technologies_v2_Nil project_grid_def)

text \<open>
  The claim C9 fails as it is stated: a response whose data has no \<open>results\<close> property
  is stored by the success path, nothing is logged, and the next render raises a
  TypeError while it derives the filter keys.
\<close>

theorem C9_counterexample_absent_results_crash:
  "Portfolio (fetchProjects (Data (Prim JUndefined)) Portfolio_init) = Inl (TypeError ''projects.map'')
   \<and> console (fetchProjects (Data (Prim JUndefined)) Portfolio_init) = []"
  by (simp add: fetchProjects_Data Portfolio_init_def Portfolio_def categories_def)

text \<open>
  C9, amended. A response that carries no data at all (\<open>data\<close> is \<open>null\<close> or
  \<open>undefined\<close>) takes the error path: reading \<open>results\<close> raises inside \<open>try\<close>, the
  diagnostic is logged and the view renders its empty-state message. A response whose
  data is present but whose \<open>results\<close> is absent or not a list takes the success path:
  the value is stored in \<open>projects\<close> and \<open>filteredProjects\<close> as it came, \<open>loading\<close>
  becomes false, nothing is logged, and deriving the filter keys on the next render
  raises a TypeError. Both hold for the category version and for version 2.0.0.
\<close>

theorem C9_missing_data_is_caught_missing_results_is_not:
  "console (fetchProjects NoData Portfolio_init) = [''Error fetching projects:'']
   \<and> Portfolio (fetchProjects NoData Portfolio_init)
       = Inr (PortfolioPage [JStr ''all''] (JStr ''all'')
               (NoProjects ''No projects found for the selected category.''))
   \<and> console (fetchProjects_v2 NoData Portfolio_init) = [''Error fetching projects:'']
   \<and> Portfolio_v2 (fetchProjects_v2 NoData Portfolio_init)
       = Inr (PortfolioPage [JStr ''all''] (JStr ''all'')
               (NoProjects ''No projects found for the selected technology.''))
   \<and> ((\<forall>items. res \<noteq> Arr items) \<longrightarrow>
         projects (fetchProjects (Data res) s) = res
         \<and> filteredProjects (fetchProjects (Data res) s) = res
         \<and> loading (fetchProjects (Data res) s) = False
         \<and> console (fetchProjects (Data res) s) = console s
         \<and> Portfolio (fetchProjects (Data res) s) = Inl (TypeError ''projects.map'')
         \<and> projects (fetchProjects_v2 (Data res) s) = res
         \<and> console (fetchProjects_v2 (Data res) s) = console s
         \<and> Portfolio_v2 (fetchProjects_v2 (Data res) s) = Inl (TypeError ''projects.flatMap''))"
proof -
  have caught: "console (fetchProjects NoData Portfolio_init) = [''Error fetching projects:'']
     \<and> Portfolio (fetchProjects NoData Portfolio_init)
       = Inr (PortfolioPage [JStr ''all''] (JStr ''all'')
               (NoProjects ''No projects found for the selected category.''))
     \<and> console (fetchProjects_v2 NoData Portfolio_init) = [''Error fetching projects:'']
     \<and> Portfolio_v2 (fetchProjects_v2 NoData Portfolio_init)
       = Inr (PortfolioPage [JStr ''all''] (JStr ''all'')
               (NoProjects ''No projects found for the selected technology.''))"
    by (simp add: fetchProjects_failed fetchProjects_v2_failed Portfolio_init_def Portfolio_def
        Portfolio_v2_def categories_Nil technologies_v2_Nil project_grid_def)
  have crash: "(\<forall>items. res \<noteq> Arr items) \<longrightarrow>
         projects (fetchProjects (Data res) s) = res
         \<and> filteredProjects (fetchProjects (Data res) s) = res
         \<and> loading (fetchProjects (Data res) s) = False
         \<and> console (fetchProjects (Data res) s) = console s
         \<and> Portfolio (fetchProjects (Data res) s) = Inl (TypeError ''projects.map'')
         \<and> projects (fetchProjects_v2 (Data res) s) = res
         \<and> console (fetchProjects_v2 (Data res) s) = console s
         \<and> Portfolio_v2 (fetchProjects_v2 (Data res) s) = Inl (TypeError ''projects.flatMap'')"
    by (cases res)
       (simp_all add: fetchProjects_Data fetchProjects_v2_Data Portfolio_def Portfolio_v2_def
          categories_def technologies_v2_def)
  from caught crash show ?thesis by (intro conjI) (elim conjE, assumption)+
qed

theorem C9_witness:
  "(Prim (JStr ''oops'') :: project stored) \<noteq> Arr []
   \<and> projects (fetchProjects (Data (Prim (JStr ''oops''))) Portfolio_init) = Prim (JStr ''oops'')
   \<and> console (fetchProjects (Data (Prim (JStr ''oops''))) Portfolio_init) = []
   \<and> Portfolio (fetchProjects (Data (Prim (JStr ''oops''))) Portfolio_init) = Inl (TypeError ''projects.map'')
   \<and> Portfolio_v2 (fetchProjects_v2 (Data Obj) Portfolio_init) = Inl (TypeError ''projects.flatMap'')"
proof -
  have str: "\<forall>items. (Prim (JStr ''oops'') :: project stored) \<noteq> Arr items" by simp
  have obj: "\<forall>items. (Obj :: project stored) \<noteq> Arr items" by simp
  note crash = C9_missing_data_is_caught_missing_results_is_not
    [THEN conjunct2, THEN conjunct2, THEN conjunct2, THEN conjunct2, THEN mp]
  from crash [OF str, of Portfolio_init] crash [OF obj, of Portfolio_init]
  show ?thesis by (simp add: Portfolio_init_def)
qed


section \<open>The claims about the server-paginated blog listing\<close>

text \<open>
  \<open>Math.ceil(count / 10)\<close> in integer arithmetic, for a count below \<open>2^53\<close> in
  magnitude, and the state after a page arrived.
\<close>

lemma ceiling_tenth: "\<lceil>(of_int c :: rat) / 10\<rceil> = - ((- c) div 10)"
proof -
  have "\<lceil>(of_int c :: rat) / 10\<rceil> = - \<lfloor>- ((of_int c :: rat) / 10)\<rfloor>"
    by (simp add: ceiling_def)
  also have "- ((of_int c :: rat) / 10) = of_int (- c) / of_int 10" by simp
  also have "\<lfloor>(of_int (- c) :: rat) / of_int 10\<rfloor> = (- c) div 10"
    by (rule floor_divide_of_int_eq)
  finally show ?thesis .
qed

lemma Math_ceil_tenth_safe:
  "\<bar>c\<bar> < 9007199254740992 \<Longrightarrow> Math_ceil_tenth big c = - ((- c) div 10)"
  by (simp add: Math_ceil_tenth_def ceiling_tenth)

lemma fetchPosts_Data:
  "fetchPosts big (Data d) s =
     s\<lparr>blog_requests := blog_requests s @ [(''http://127.0.0.1:8000/api/blog/posts/?page='', currentPage s)],
       posts := results d, totalPages := Math_ceil_tenth big (count d), blog_loading := False\<rparr>"
  by (simp add: fetchPosts_def Let_def)

text \<open>
  C3. \<open>currentPage\<close> starts at 1 and is still 1 after the first fetch. After a page
  with the count field \<open>count\<close> arrived, for a count below \<open>2^53\<close> in magnitude,
  \<open>totalPages\<close> is the ceiling of \<open>count / 10\<close>, that is the least number of pages of
  ten that hold \<open>count\<close> posts; a count of 25 gives 3. The pagination bar is rendered
  whenever the view is not loading, there are posts, and \<open>totalPages\<close> is above 1 and
  below \<open>2^32\<close>: it then holds Previous, disabled exactly when \<open>currentPage\<close> is 1, the
  page numbers from 1 to \<open>totalPages\<close>, and Next, disabled exactly when \<open>currentPage\<close>
  equals \<open>totalPages\<close>. Whenever a bar is rendered at all, its two controls are
  disabled under exactly these conditions. When \<open>totalPages\<close> is at most 1 the view
  renders without raising and holds no pagination bar.
\<close>

theorem C3_blog_pagination:
  "currentPage Blog_init = 1
   \<and> currentPage (fetchPosts big r Blog_init) = 1
   \<and> (\<bar>count d\<bar> < 9007199254740992 \<longrightarrow>
         totalPages (fetchPosts big (Data d) s) = \<lceil>(of_int (count d) :: rat) / 10\<rceil>
         \<and> 10 * (totalPages (fetchPosts big (Data d) s) - 1) < count d
         \<and> count d \<le> 10 * totalPages (fetchPosts big (Data d) s))
   \<and> (count d = 25 \<longrightarrow> totalPages (fetchPosts big (Data d) s) = 3)
   \<and> (\<not> blog_loading s \<and> posts s \<noteq> [] \<and> 1 < totalPages s \<and> totalPages s < 4294967296 \<longrightarrow>
         Blog s = Inr (PostsGrid (posts s)
                    (Some (Pagination (currentPage s = 1) [1..totalPages s]
                             (currentPage s = totalPages s)))))
   \<and> (Blog s = Inr v \<and> pagination_of v = Some pg \<longrightarrow>
         (previous_disabled pg \<longleftrightarrow> currentPage s = 1)
         \<and> (next_disabled pg \<longleftrightarrow> currentPage s = totalPages s))
   \<and> (totalPages s \<le> 1 \<longrightarrow> (\<exists>v. Blog s = Inr v \<and> pagination_of v = None))"
proof -
  have start: "currentPage Blog_init = 1 \<and> currentPage (fetchPosts big r Blog_init) = 1"
    by (cases r) (simp_all add: Blog_init_def fetchPosts_def Let_def)
  have total: "\<bar>count d\<bar> < 9007199254740992 \<longrightarrow>
         totalPages (fetchPosts big (Data d) s) = \<lceil>(of_int (count d) :: rat) / 10\<rceil>
         \<and> 10 * (totalPages (fetchPosts big (Data d) s) - 1) < count d
         \<and> count d \<le> 10 * totalPages (fetchPosts big (Data d) s)"
  proof
    assume safe: "\<bar>count d\<bar> < 9007199254740992"
    have tp: "totalPages (fetchPosts big (Data d) s) = - ((- count d) div 10)"
      using safe by (simp add: fetchPosts_Data Math_ceil_tenth_safe)
    have ceil: "totalPages (fetchPosts big (Data d) s) = \<lceil>(of_int (count d) :: rat) / 10\<rceil>"
      using tp by (simp add: ceiling_tenth)
    have lower: "10 * (totalPages (fetchPosts big (Data d) s) - 1) < count d"
      unfolding tp by presburger
    have upper: "count d \<le> 10 * totalPages (fetchPosts big (Data d) s)"
      unfolding tp by presburger
    from ceil lower upper
    show "totalPages (fetchPosts big (Data d) s) = \<lceil>(of_int (count d) :: rat) / 10\<rceil>
         \<and> 10 * (totalPages (fetchPosts big (Data d) s) - 1) < count d
         \<and> count d \<le> 10 * totalPages (fetchPosts big (Data d) s)"
      by (intro conjI)
  qed
  have example: "count d = 25 \<longrightarrow> totalPages (fetchPosts big (Data d) s) = 3"
    by (simp add: fetchPosts_Data Math_ceil_tenth_safe)
  have rendered: "\<not> blog_loading s \<and> posts s \<noteq> [] \<and> 1 < totalPages s \<and> totalPages s < 4294967296 \<longrightarrow>
         Blog s = Inr (PostsGrid (posts s)
                    (Some (Pagination (currentPage s = 1) [1..totalPages s]
                             (currentPage s = totalPages s))))"
    by (simp add: Blog_def)
  have buttons: "Blog s = Inr v \<and> pagination_of v = Some pg \<longrightarrow>
         (previous_disabled pg \<longleftrightarrow> currentPage s = 1)
         \<and> (next_disabled pg \<longleftrightarrow> currentPage s = totalPages s)"
    by (auto simp: Blog_def split: if_splits)
  have hidden: "totalPages s \<le> 1 \<longrightarrow> (\<exists>v. Blog s = Inr v \<and> pagination_of v = None)"
    by (simp add: Blog_def)
  show ?thesis
    by (intro conjI) (rule start [THEN conjunct1] start [THEN conjunct2] total example rendered
          buttons hidden)+
qed

theorem C3_witness:
  "\<bar>count \<lparr>results = [first_post], count = 25\<rparr>\<bar> < 9007199254740992
   \<and> totalPages (fetchPosts (\<lambda>c. 0) (Data \<lparr>results = [first_post], count = 25\<rparr>) Blog_init) = 3
   \<and> Blog (fetchPosts (\<lambda>c. 0) (Data \<lparr>results = [first_post], count = 25\<rparr>) Blog_init)
        = Inr (PostsGrid [first_post] (Some (Pagination True [1, 2, 3] False)))
   \<and> Blog (handlePageChange 2 (fetchPosts (\<lambda>c. 0) (Data \<lparr>results = [first_post], count = 25\<rparr>) Blog_init))
        = Inr (PostsGrid [first_post] (Some (Pagination False [1, 2, 3] False)))
   \<and> Blog (handlePageChange 3 (fetchPosts (\<lambda>c. 0) (Data \<lparr>results = [first_post], count = 25\<rparr>) Blog_init))
        = Inr (PostsGrid [first_post] (Some (Pagination False [1, 2, 3] True)))
   \<and> totalPages (fetchPosts (\<lambda>c. 0) (Data \<lparr>results = [first_post], count = 11\<rparr>) Blog_init) = 2
   \<and> Blog (fetchPosts (\<lambda>c. 0) (Data \<lparr>results = [first_post], count = 11\<rparr>) Blog_init)
        = Inr (PostsGrid [first_post] (Some (Pagination True [1, 2] False)))
   \<and> totalPages (fetchPosts (\<lambda>c. 0) (Data \<lparr>results = [first_post], count = 10\<rparr>) Blog_init) \<le> 1
   \<and> Blog (fetchPosts (\<lambda>c. 0) (Data \<lparr>results = [first_post], count = 10\<rparr>) Blog_init)
        = Inr (PostsGrid [first_post] None)"
proof -
  let ?d = "\<lparr>results = [first_post], count = 25\<rparr>"
  let ?s = "fetchPosts (\<lambda>c. 0) (Data ?d) Blog_init"
  let ?d2 = "\<lparr>results = [first_post], count = 11\<rparr>"
  let ?s2 = "fetchPosts (\<lambda>c. 0) (Data ?d2) Blog_init"
  let ?d1 = "\<lparr>results = [first_post], count = 10\<rparr>"
  let ?s1 = "fetchPosts (\<lambda>c. 0) (Data ?d1) Blog_init"
  let ?pg = "Pagination True [] True"
  note total_of = C3_blog_pagination [THEN conjunct2, THEN conjunct2, THEN conjunct1, THEN mp,
      THEN conjunct1]
  note rendered_of = C3_blog_pagination [THEN conjunct2, THEN conjunct2, THEN conjunct2,
      THEN conjunct2, THEN conjunct1, THEN mp]
  note hidden_of = C3_blog_pagination [THEN conjunct2, THEN conjunct2, THEN conjunct2,
      THEN conjunct2, THEN conjunct2, THEN conjunct2, THEN mp]
  have upto3: "[1..3::int] = [1, 2, 3]" by (simp add: upto.simps)
  have upto2: "[1..2::int] = [1, 2]" by (simp add: upto.simps)
  have safe: "\<bar>count ?d\<bar> < 9007199254740992" by simp
  have total: "totalPages ?s = 3"
    using total_of [of ?d "\<lambda>c. 0" Blog_init] ceiling_tenth [of 25] by simp
  have total2: "totalPages ?s2 = 2"
    using total_of [of ?d2 "\<lambda>c. 0" Blog_init] ceiling_tenth [of 11] by simp
  have total1: "totalPages ?s1 \<le> 1"
    using total_of [of ?d1 "\<lambda>c. 0" Blog_init] ceiling_tenth [of 10] by simp
  have shown: "\<not> blog_loading ?s \<and> posts ?s = [first_post] \<and> currentPage ?s = 1"
    by (simp add: fetchPosts_Data Blog_init_def)
  have shown2: "\<not> blog_loading ?s2 \<and> posts ?s2 = [first_post] \<and> currentPage ?s2 = 1"
    by (simp add: fetchPosts_Data Blog_init_def)
  have shown1: "\<not> blog_loading ?s1 \<and> posts ?s1 = [first_post]"
    by (simp add: fetchPosts_Data Blog_init_def)
  have view1: "Blog ?s = Inr (PostsGrid [first_post] (Some (Pagination True [1, 2, 3] False)))"
    using rendered_of [of ?s] total shown upto3 by simp
  have view2: "Blog (handlePageChange 2 ?s)
      = Inr (PostsGrid [first_post] (Some (Pagination False [1, 2, 3] False)))"
    using rendered_of [of "handlePageChange 2 ?s"] total shown upto3
    by (simp add: handlePageChange_def)
  have view3: "Blog (handlePageChange 3 ?s)
      = Inr (PostsGrid [first_post] (Some (Pagination False [1, 2, 3] True)))"
    using rendered_of [of "handlePageChange 3 ?s"] total shown upto3
    by (simp add: handlePageChange_def)
  have view12: "Blog ?s2 = Inr (PostsGrid [first_post] (Some (Pagination True [1, 2] False)))"
    using rendered_of [of ?s2] total2 shown2 upto2 by simp
  have view11: "Blog ?s1 = Inr (PostsGrid [first_post] None)"
    using hidden_of [of ?s1, OF total1] total1 shown1 by (auto simp: Blog_def split: if_splits)
  show ?thesis
    by (intro conjI) (rule safe total view1 view2 view3 total2 view12 total1 view11)+
qed


section \<open>The claims about the contact form\<close>

text \<open>One whole submission whose request is rejected, as a single state update.\<close>

lemma handleSubmit_rejected:
  "handleSubmit (PostRejected e) s =
     s\<lparr>posted := posted s @ [formData s],
       in_flight := tl (in_flight s @ [formData s]),
       contact_console := contact_console s @ [''Error sending message:''],
       submitStatus := Some ''error'', isSubmitting := False\<rparr>"
  by (cases "in_flight s") (simp_all add: handleSubmit_def handleSubmit_send_def handleSubmit_settle_def)

text \<open>
  C6. A submission whose POST fails, from any state of the form: the error banner and
  only it is shown, the four field values are those entered before, in the state and in
  the rendered fields, the submit control is enabled again with its idle label, and the
  request posted carried those values. The same holds when the user went on typing
  while the request was in flight: settling a rejected request changes no field.
\<close>

theorem C6_failed_submission_keeps_the_form:
  "banners (Contact (handleSubmit (PostRejected e) s)) = [AlertError]
   \<and> formData (handleSubmit (PostRejected e) s) = formData s
   \<and> field_values (Contact (handleSubmit (PostRejected e) s)) = formData s
   \<and> submit_disabled (Contact (handleSubmit (PostRejected e) s)) = False
   \<and> submit_label (Contact (handleSubmit (PostRejected e) s)) = ''Send Message''
   \<and> posted (handleSubmit (PostRejected e) s) = posted s @ [formData s]
   \<and> (in_flight s \<noteq> [] \<longrightarrow>
         banners (Contact (handleSubmit_settle (PostRejected e) s)) = [AlertError]
         \<and> formData (handleSubmit_settle (PostRejected e) s) = formData s
         \<and> submit_disabled (Contact (handleSubmit_settle (PostRejected e) s)) = False)"
proof -
  have whole: "banners (Contact (handleSubmit (PostRejected e) s)) = [AlertError]
      \<and> formData (handleSubmit (PostRejected e) s) = formData s
      \<and> field_values (Contact (handleSubmit (PostRejected e) s)) = formData s
      \<and> submit_disabled (Contact (handleSubmit (PostRejected e) s)) = False
      \<and> submit_label (Contact (handleSubmit (PostRejected e) s)) = ''Send Message''
      \<and> posted (handleSubmit (PostRejected e) s) = posted s @ [formData s]"
    by (simp add: handleSubmit_rejected Contact_def)
  have settle: "in_flight s \<noteq> [] \<longrightarrow>
         banners (Contact (handleSubmit_settle (PostRejected e) s)) = [AlertError]
         \<and> formData (handleSubmit_settle (PostRejected e) s) = formData s
         \<and> submit_disabled (Contact (handleSubmit_settle (PostRejected e) s)) = False"
    by (cases "in_flight s") (simp_all add: handleSubmit_settle_def Contact_def)
  from whole settle show ?thesis by (intro conjI) (elim conjE, assumption)+
qed

theorem C6_witness:
  "in_flight (handleSubmit_send (handleChange Subject ''Hello'' Contact_init)) \<noteq> []
   \<and> banners (Contact (handleSubmit (PostRejected (AxiosError ''Network Error''))
         (handleChange Subject ''Hello'' Contact_init))) = [AlertError]
   \<and> subject (field_values (Contact (handleSubmit (PostRejected (AxiosError ''Network Error''))
         (handleChange Subject ''Hello'' Contact_init)))) = ''Hello''
   \<and> subject (formData (handleSubmit_settle (PostRejected (AxiosError ''Network Error''))
         (handleSubmit_send (handleChange Subject ''Hello'' Contact_init)))) = ''Hello''
   \<and> submit_disabled (Contact (handleSubmit_settle (PostRejected (AxiosError ''Network Error''))
         (handleSubmit_send (handleChange Subject ''Hello'' Contact_init)))) = False"
proof -
  let ?s = "handleChange Subject ''Hello'' Contact_init"
  let ?e = "AxiosError ''Network Error''"
  have busy: "in_flight (handleSubmit_send ?s) \<noteq> []"
    by (simp add: handleSubmit_send_def)
  have subj: "subject (formData ?s) = ''Hello''"
    by (simp add: handleChange_def)
  have kept: "formData (handleSubmit_send ?s) = formData ?s"
    by (simp add: handleSubmit_send_def)
  note c6 = C6_failed_submission_keeps_the_form [of ?e ?s]
  note c6s = C6_failed_submission_keeps_the_form [of ?e "handleSubmit_send ?s",
      THEN conjunct2, THEN conjunct2, THEN conjunct2, THEN conjunct2, THEN conjunct2, THEN conjunct2,
      THEN mp, OF busy]
  from c6 subj have a: "banners (Contact (handleSubmit (PostRejected ?e) ?s)) = [AlertError]
     \<and> subject (field_values (Contact (handleSubmit (PostRejected ?e) ?s))) = ''Hello''"
    by simp
  from c6s subj kept have b: "subject (formData (handleSubmit_settle (PostRejected ?e)
         (handleSubmit_send ?s))) = ''Hello''
     \<and> submit_disabled (Contact (handleSubmit_settle (PostRejected ?e)
         (handleSubmit_send ?s))) = False"
    by simp
  from busy a b show ?thesis by (intro conjI) (elim conjE, assumption)+
qed

text \<open>
  The handler alone does not protect against a second request: whenever it runs, it
  posts. What keeps it from running is the \<open>disabled\<close> attribute of the button.
\<close>

lemma handleSubmit_send_posts:
  "posted (handleSubmit_send s) = posted s @ [formData s]"
  by (simp add: handleSubmit_send_def)

text \<open>
  In every reachable state \<open>isSubmitting\<close> is true exactly while a request is in
  flight, and there is at most one.
\<close>

lemma reachable_invariant:
  "reachable s \<Longrightarrow> length (in_flight s) \<le> 1 \<and> (isSubmitting s \<longleftrightarrow> in_flight s \<noteq> [])"
proof (induction rule: reachable.induct)
  case reachable_init
  show ?case by (simp add: Contact_init_def)
next
  case (reachable_step s e)
  show ?case
  proof (cases e)
    case (Type f v)
    with reachable_step.IH show ?thesis by (simp add: handleChange_def)
  next
    case Submit
    with reachable_step.IH show ?thesis
      by (auto simp: Contact_def handleSubmit_send_def)
  next
    case (Settle outcome)
    with reachable_step.IH show ?thesis
      by (cases "in_flight s"; cases outcome) (auto simp: handleSubmit_settle_def)
  qed
qed

text \<open>
  C7. In every state the form can reach by typing, activating the submit control and
  settling requests: at most one submission is in flight; while one is in flight the
  submit control is rendered disabled; and activating the control while it is disabled
  issues no write request and leaves the one in flight as it is.
\<close>

theorem C7_single_submission_in_flight:
  "reachable s \<Longrightarrow>
     length (in_flight s) \<le> 1
     \<and> (in_flight s \<noteq> [] \<longrightarrow> submit_disabled (Contact s))
     \<and> (submit_disabled (Contact s) \<longrightarrow>
           posted (contact_step Submit s) = posted s
           \<and> in_flight (contact_step Submit s) = in_flight s)"
  using reachable_invariant [of s] by (simp add: Contact_def)

theorem C7_witness:
  "reachable (contact_step Submit (contact_step (Type Subject ''Hello'') Contact_init))
   \<and> length (in_flight (contact_step Submit (contact_step (Type Subject ''Hello'') Contact_init))) = 1
   \<and> submit_disabled (Contact (contact_step Submit (contact_step (Type Subject ''Hello'') Contact_init)))
   \<and> posted (contact_step Submit (contact_step Submit (contact_step (Type Subject ''Hello'') Contact_init)))
        = [\<lparr>name = [], email = [], subject = ''Hello'', message = []\<rparr>]"
proof -
  let ?s = "contact_step Submit (contact_step (Type Subject ''Hello'') Contact_init)"
  have r: "reachable ?s"
    by (intro reachable_step reachable_init)
  have sent: "posted ?s = [\<lparr>name = [], email = [], subject = ''Hello'', message = []\<rparr>]
      \<and> length (in_flight ?s) = 1"
    by (simp add: Contact_def Contact_init_def handleChange_def handleSubmit_send_def empty_form_def)
  note c7 = C7_single_submission_in_flight [OF r]
  from sent have busy: "in_flight ?s \<noteq> []" by auto
  from c7 busy have dis: "submit_disabled (Contact ?s)" by blast
  from c7 dis have "posted (contact_step Submit ?s) = posted ?s" by blast
  with sent r dis show ?thesis by simp
qed


section \<open>The claim about the reads of the Home view\<close>

text \<open>
  C8. The four reads of \<open>fetchData\<close> are not independent. When the request for the
  admin profile is rejected, it is the only request issued, and the skills, the
  featured projects and the recent posts keep their previous values; when the profile
  arrives and the request for the skills is rejected, the requests for the projects
  and the posts are never issued.
\<close>

theorem C8_one_failed_read_stops_the_later_reads:
  "(profile_response rs = Rejected e \<longrightarrow>
      home_requests (fetchData rs s)
        = home_requests s @ [''http://127.0.0.1:8000/api/v1/portfolio/admin-profile/'']
      \<and> skills (fetchData rs s) = skills s
      \<and> featuredProjects (fetchData rs s) = featuredProjects s
      \<and> recentPosts (fetchData rs s) = recentPosts s)
   \<and> (profile_response rs = Data d \<and> skills_response rs = Rejected e \<longrightarrow>
      home_requests (fetchData rs s)
        = home_requests s @ [''http://127.0.0.1:8000/api/v1/portfolio/admin-profile/'',
                             ''http://127.0.0.1:8000/api/v1/portfolio/skills/'']
      \<and> featuredProjects (fetchData rs s) = featuredProjects s
      \<and> recentPosts (fetchData rs s) = recentPosts s)"
  by (simp add: fetchData_def fetchData_skills_def fetchData_catch_def axios_get_def Let_def)

theorem C8_witness:
  "profile_response profile_rejected = Rejected (AxiosError ''Network Error'')
   \<and> home_requests (fetchData profile_rejected Home_init)
        = [''http://127.0.0.1:8000/api/v1/portfolio/admin-profile/'']
   \<and> skills (fetchData profile_rejected Home_init) = Arr []
   \<and> featuredProjects (fetchData profile_rejected Home_init) = Arr []
   \<and> recentPosts (fetchData profile_rejected Home_init) = Arr []
   \<and> home_console (fetchData profile_rejected Home_init) = [''Error fetching data:'']
   \<and> skills_response profile_rejected = Data (Arr [react_skill])
   \<and> skills (fetchData all_resolved Home_init) = Arr [react_skill]
   \<and> featuredProjects (fetchData all_resolved Home_init) = Arr [shop_project]
   \<and> recentPosts (fetchData all_resolved Home_init) = Arr [first_post]
   \<and> home_requests (fetchData all_resolved Home_init)
        = [''http://127.0.0.1:8000/api/v1/portfolio/admin-profile/'',
           ''http://127.0.0.1:8000/api/v1/portfolio/skills/'',
           ''http://127.0.0.1:8000/api/v1/portfolio/projects/'',
           ''http://127.0.0.1:8000/api/v1/blog/posts/'']"
proof -
  have rej: "profile_response profile_rejected = Rejected (AxiosError ''Network Error'')"
    by (simp add: profile_rejected_def)
  note c8 = C8_one_failed_read_stops_the_later_reads
    [of profile_rejected "AxiosError ''Network Error''" Home_init, THEN conjunct1, THEN mp, OF rej]
  from c8 have stopped: "home_requests (fetchData profile_rejected Home_init)
        = [''http://127.0.0.1:8000/api/v1/portfolio/admin-profile/'']
      \<and> skills (fetchData profile_rejected Home_init) = Arr []
      \<and> featuredProjects (fetchData profile_rejected Home_init) = Arr []
      \<and> recentPosts (fetchData profile_rejected Home_init) = Arr []"
    by (simp add: Home_init_def)
  have logged: "home_console (fetchData profile_rejected Home_init) = [''Error fetching data:'']"
    by (simp add: fetchData_def fetchData_catch_def axios_get_def Let_def profile_rejected_def
        Home_init_def)
  have would: "skills_response profile_rejected = Data (Arr [react_skill])"
    by (simp add: profile_rejected_def all_resolved_def)
  have feat: "filter (\<lambda>project. truthy (featured project)) [shop_project, bank_project] = [shop_project]"
    by (simp add: shop_project_def bank_project_def)
  have ok: "skills (fetchData all_resolved Home_init) = Arr [react_skill]
      \<and> featuredProjects (fetchData all_resolved Home_init) = Arr [shop_project]
      \<and> recentPosts (fetchData all_resolved Home_init) = Arr [first_post]
      \<and> home_requests (fetchData all_resolved Home_init)
        = [''http://127.0.0.1:8000/api/v1/portfolio/admin-profile/'',
           ''http://127.0.0.1:8000/api/v1/portfolio/skills/'',
           ''http://127.0.0.1:8000/api/v1/portfolio/projects/'',
           ''http://127.0.0.1:8000/api/v1/blog/posts/'']"
    using feat
    by (simp add: fetchData_def fetchData_skills_def fetchData_projects_def fetchData_posts_def
        axios_get_def Let_def all_resolved_def Home_init_def slice0_def js_filter_def)
  from rej stopped logged would ok show ?thesis
    by (intro conjI) (elim conjE, assumption)+
qed


section \<open>The claim about \<open>formatDate\<close>\<close>

text \<open>No month name starts like \<open>Invalid Date\<close>, so a formatted date never reads so.\<close>

lemma month_name_listed: "month_name m \<in> set month_names"
proof -
  have "nat ((m - 1) mod 12) < length month_names"
    by (simp add: month_names_def nat_less_iff)
  then show ?thesis
    unfolding month_name_def by (rule nth_mem)
qed

lemma month_names_initials: "\<forall>s \<in> set month_names. s \<noteq> [] \<and> hd s \<noteq> CHR ''I''"
  by (simp add: month_names_def)

lemma month_name_initial: "hd (month_name m) \<noteq> CHR ''I''"
  using month_name_listed [of m] month_names_initials by blast

lemma month_name_nonempty: "month_name m \<noteq> []"
  using month_name_listed [of m] month_names_initials by blast

lemma formatted_not_invalid: "month_name m @ rest \<noteq> ''Invalid Date''"
proof
  assume "month_name m @ rest = ''Invalid Date''"
  then have "hd (month_name m @ rest) = CHR ''I''" by simp
  with month_name_nonempty [of m] month_name_initial [of m] show False by simp
qed

lemma civil_epoch: "civil_from_days 0 = (1970, 1, 1)"
  by code_simp

text \<open>
  The claim C10 fails as it is stated for a missing timestamp that is \<open>null\<close>:
  \<open>new Date(null)\<close> is the epoch, a valid date, which a host in UTC formats as
  January 1970.
\<close>

theorem C10_counterexample_null_is_the_epoch:
  "formatDate utc_env JNull = ''January 1970''
   \<and> formatDate_blog utc_env JNull = ''January 1, 1970''"
  by (simp add: formatDate_def formatDate_blog_def toLocaleDateString_month_year_def
      toLocaleDateString_long_def TimeClip_def utc_env_def civil_epoch month_name_def month_names_def decimal.simps)

text \<open>
  C10, amended. \<open>formatDate\<close> returns a string for every input, and that string is
  \<open>Invalid Date\<close> exactly when the date constructed from the input is invalid. So it
  is for \<open>undefined\<close> and for a string that the host does not parse. The value \<open>null\<close>
  is converted to the time value 0, and the result is then a formatted date, never
  \<open>Invalid Date\<close>. This holds for the month-and-year format of the Portfolio page and
  for the month-day-year format of the Blog page, on every host.
\<close>

theorem C10_formatDate_invalid_exactly_for_invalid_dates:
  "(formatDate env v = ''Invalid Date'' \<longleftrightarrow> Date_new env v = None)
   \<and> (formatDate_blog env v = ''Invalid Date'' \<longleftrightarrow> Date_new env v = None)
   \<and> formatDate env JUndefined = ''Invalid Date''
   \<and> formatDate_blog env JUndefined = ''Invalid Date''
   \<and> (Date_parse env str = None \<longrightarrow>
         formatDate env (JStr str) = ''Invalid Date''
         \<and> formatDate_blog env (JStr str) = ''Invalid Date'')
   \<and> Date_new env JNull = Some 0
   \<and> formatDate env JNull \<noteq> ''Invalid Date''
   \<and> formatDate_blog env JNull \<noteq> ''Invalid Date''"
proof -
  have iff1: "formatDate env v = ''Invalid Date'' \<longleftrightarrow> Date_new env v = None" for v
    by (cases "Date_new env v")
       (simp_all add: formatDate_def toLocaleDateString_month_year_def formatted_not_invalid
          split: prod.splits)
  have iff2: "formatDate_blog env v = ''Invalid Date'' \<longleftrightarrow> Date_new env v = None" for v
    by (cases "Date_new env v")
       (simp_all add: formatDate_blog_def toLocaleDateString_long_def formatted_not_invalid
          split: prod.splits)
  have undef: "formatDate env JUndefined = ''Invalid Date''
      \<and> formatDate_blog env JUndefined = ''Invalid Date''"
    by (simp add: formatDate_def formatDate_blog_def toLocaleDateString_month_year_def
        toLocaleDateString_long_def)
  have unparsed: "Date_parse env str = None \<longrightarrow>
         formatDate env (JStr str) = ''Invalid Date''
         \<and> formatDate_blog env (JStr str) = ''Invalid Date''"
    by (simp add: formatDate_def formatDate_blog_def toLocaleDateString_month_year_def
        toLocaleDateString_long_def)
  have null: "Date_new env JNull = Some 0"
    by (simp add: TimeClip_def)
  from iff1 [of JNull] iff2 [of JNull] null
  have valid: "formatDate env JNull \<noteq> ''Invalid Date'' \<and> formatDate_blog env JNull \<noteq> ''Invalid Date''"
    by simp
  show ?thesis
    by (intro conjI) (rule iff1 iff2 undef [THEN conjunct1] undef [THEN conjunct2] unparsed null
          valid [THEN conjunct1] valid [THEN conjunct2])+
qed

theorem C10_witness:
  "Date_parse utc_env ''next tuesday'' = None
   \<and> formatDate utc_env (JStr ''next tuesday'') = ''Invalid Date''
   \<and> formatDate_blog utc_env (JStr ''next tuesday'') = ''Invalid Date''
   \<and> formatDate utc_env JUndefined = ''Invalid Date''
   \<and> Date_new utc_env JNull = Some 0"
proof -
  have none: "Date_parse utc_env ''next tuesday'' = None"
    by (simp add: utc_env_def)
  note c10 = C10_formatDate_invalid_exactly_for_invalid_dates [of utc_env JUndefined "''next tuesday''"]
  from c10 none show ?thesis by blast
qed

end
